theory Spec2Isabelle
  imports Complex_Main "HOL-Library.Char_ord" "HOL-Library.List_Lexorder"
    "HOL-Library.Product_Lexorder"
begin

section \<open>Numbers, errors and list access\<close>

text \<open>
  The valuation is written in Python over floating-point numbers. Finite numbers are
  modelled as exact reals; the one non-finite value that the program can produce from
  finite data is NaN (pandas yields it where row labels do not line up, and it marks a
  missing cell), and it is modelled as \<open>None\<close>. Arithmetic with NaN gives NaN. Dividing
  by zero raises \<open>ZeroDivisionError\<close> in Python, whatever the dividend is, and the
  exception is a value of the model, as are the other exceptions the program can raise. Rounding, overflow and infinities are outside the
  model.
\<close>

datatype py_error = ZeroDivisionError | IndexError | ValueError | KeyError

type_synonym pyfloat = "real option"

definition fmul :: "pyfloat \<Rightarrow> real \<Rightarrow> pyfloat" where
  "fmul x c = map_option (\<lambda>a. a * c) x"

definition fdiv :: "pyfloat \<Rightarrow> real \<Rightarrow> py_error + pyfloat" where
  "fdiv x c = (if c = 0 then Inl ZeroDivisionError else Inr (map_option (\<lambda>a. a / c) x))"

definition fadd :: "pyfloat \<Rightarrow> pyfloat \<Rightarrow> pyfloat" where
  "fadd x y = (case x of None \<Rightarrow> None | Some a \<Rightarrow> map_option (\<lambda>b. a + b) y)"

definition fsub :: "pyfloat \<Rightarrow> pyfloat \<Rightarrow> pyfloat" where
  "fsub x y = (case x of None \<Rightarrow> None | Some a \<Rightarrow> map_option (\<lambda>b. a - b) y)"

text \<open>Python's \<open>sum(xs)\<close>: a left fold of \<open>+\<close> that starts from 0.\<close>

definition py_sum :: "pyfloat list \<Rightarrow> pyfloat" where
  "py_sum xs = foldl fadd (Some 0) xs"

text \<open>Python's \<open>xs[i]\<close>: a negative index counts from the end, a miss raises.\<close>

definition py_index :: "'a list \<Rightarrow> int \<Rightarrow> py_error + 'a" where
  "py_index xs i =
     (if 0 \<le> i \<and> i < int (length xs) then Inr (xs ! nat i)
      else if i < 0 \<and> - int (length xs) \<le> i then Inr (xs ! nat (int (length xs) + i))
      else Inl IndexError)"

text \<open>A list comprehension whose element expression may raise: the first exception,
  from left to right, ends it.\<close>

fun map_err :: "('a \<Rightarrow> py_error + 'b) \<Rightarrow> 'a list \<Rightarrow> py_error + 'b list" where
  "map_err f [] = Inr []"
| "map_err f (x # xs) =
     (case f x of
        Inl e \<Rightarrow> Inl e
      | Inr y \<Rightarrow> (case map_err f xs of Inl e \<Rightarrow> Inl e | Inr ys \<Rightarrow> Inr (y # ys)))"

section \<open>The valuation of one historical year\<close>

text \<open>
  Lines 95 to 109 of \<open>dcf_analysis\<close>, the body of the loop over the historical years.
  \<open>range(1, projection_years + 1)\<close> is \<open>[1..N]\<close>, empty when \<open>N < 1\<close>.
  \<^verbatim>\<open>
  projected_fcffs = [current_fcff * (1 + terminal_growth_rate) ** j
                     for j in range(1, projection_years + 1)]
  discount_factors = [(1 + discount_rate) ** j for j in range(1, projection_years + 1)]
  discounted_fcffs = [fcff / discount_factors[j] for j, fcff in enumerate(projected_fcffs)]
  terminal_value = projected_fcffs[-1] * (1 + terminal_growth_rate)
                   / (discount_rate - terminal_growth_rate)
  terminal_value_pv = terminal_value / discount_factors[-1]
  net_present_value = sum(discounted_fcffs) + terminal_value_pv
  \<close>
\<close>

definition projected_fcffs :: "pyfloat \<Rightarrow> real \<Rightarrow> int \<Rightarrow> pyfloat list" where
  "projected_fcffs current_fcff terminal_growth_rate projection_years =
     map (\<lambda>j. fmul current_fcff ((1 + terminal_growth_rate) ^ nat j)) [1..projection_years]"

definition discount_factors :: "real \<Rightarrow> int \<Rightarrow> real list" where
  "discount_factors discount_rate projection_years =
     map (\<lambda>j. (1 + discount_rate) ^ nat j) [1..projection_years]"

definition discounted_fcffs :: "pyfloat list \<Rightarrow> real list \<Rightarrow> py_error + pyfloat list" where
  "discounted_fcffs projected factors =
     map_err (\<lambda>(j, fcff). case py_index factors (int j) of
                             Inl e \<Rightarrow> Inl e
                           | Inr d \<Rightarrow> fdiv fcff d)
             (enumerate 0 projected)"

definition terminal_value :: "pyfloat list \<Rightarrow> real \<Rightarrow> real \<Rightarrow> py_error + pyfloat" where
  "terminal_value projected discount_rate terminal_growth_rate =
     (case py_index projected (- 1) of
        Inl e \<Rightarrow> Inl e
      | Inr p \<Rightarrow> fdiv (fmul p (1 + terminal_growth_rate)) (discount_rate - terminal_growth_rate))"

definition terminal_value_pv :: "pyfloat \<Rightarrow> real list \<Rightarrow> py_error + pyfloat" where
  "terminal_value_pv tv factors =
     (case py_index factors (- 1) of Inl e \<Rightarrow> Inl e | Inr d \<Rightarrow> fdiv tv d)"

text \<open>The pair returned is \<open>(terminal_value_pv, net_present_value)\<close>, the two values
  that the loop body appends to its result lists.\<close>

definition dcf_year :: "pyfloat \<Rightarrow> real \<Rightarrow> real \<Rightarrow> int \<Rightarrow> py_error + (pyfloat \<times> pyfloat)" where
  "dcf_year current_fcff discount_rate terminal_growth_rate projection_years =
     (let projected = projected_fcffs current_fcff terminal_growth_rate projection_years;
          factors = discount_factors discount_rate projection_years
      in case discounted_fcffs projected factors of
           Inl e \<Rightarrow> Inl e
         | Inr discounted \<Rightarrow>
             (case terminal_value projected discount_rate terminal_growth_rate of
                Inl e \<Rightarrow> Inl e
              | Inr tv \<Rightarrow>
                  (case terminal_value_pv tv factors of
                     Inl e \<Rightarrow> Inl e
                   | Inr tv_pv \<Rightarrow> Inr (tv_pv, fadd (py_sum discounted) tv_pv))))"

section \<open>The loop over the historical years and the output table\<close>

text \<open>
  Lines 85 to 122. The loop runs \<open>i\<close> over \<open>range(len(historical_fcffs))\<close>, reads
  \<open>historical_fcffs[i]\<close>, formats \<open>historical_years[i]\<close> into the progress line, values
  the year and appends the two results. An exception in any year ends the run: the
  statements that build and save the table are never reached. The progress lines
  themselves are not modelled.
\<close>

fun dcf_loop ::
  "int list \<Rightarrow> pyfloat list \<Rightarrow> real \<Rightarrow> real \<Rightarrow> int \<Rightarrow> nat list
     \<Rightarrow> pyfloat list \<times> pyfloat list \<Rightarrow> py_error + (pyfloat list \<times> pyfloat list)" where
  "dcf_loop historical_years historical_fcffs r g N [] acc = Inr acc"
| "dcf_loop historical_years historical_fcffs r g N (i # rest) (terminal_values, net_present_values) =
     (case py_index historical_fcffs (int i) of
        Inl e \<Rightarrow> Inl e
      | Inr current_fcff \<Rightarrow>
          (case py_index historical_years (int i) of
             Inl e \<Rightarrow> Inl e
           | Inr y \<Rightarrow>
               (case dcf_year current_fcff r g N of
                  Inl e \<Rightarrow> Inl e
                | Inr (tv_pv, npv) \<Rightarrow>
                    dcf_loop historical_years historical_fcffs r g N rest
                      (terminal_values @ [tv_pv], net_present_values @ [npv]))))"

text \<open>The output frame, one list per column; \<open>x / 1_000_000\<close> on every money column.
  pandas refuses to build a frame from columns of different lengths.\<close>

record output_df =
  Year :: "int list"
  Free_Cash_Flow :: "pyfloat list"
  Terminal_Value :: "pyfloat list"
  Net_Present_Value :: "pyfloat list"

definition millions :: "pyfloat \<Rightarrow> pyfloat" where
  "millions x = map_option (\<lambda>a. a / 1000000) x"

definition valuation_table ::
  "int list \<Rightarrow> pyfloat list \<Rightarrow> real \<Rightarrow> real \<Rightarrow> int \<Rightarrow> py_error + output_df" where
  "valuation_table historical_years historical_fcffs discount_rate terminal_growth_rate projection_years =
     (case dcf_loop historical_years historical_fcffs discount_rate terminal_growth_rate
             projection_years [0..<length historical_fcffs] ([], []) of
        Inl e \<Rightarrow> Inl e
      | Inr (terminal_values, net_present_values) \<Rightarrow>
          if length historical_fcffs = length historical_years
             \<and> length terminal_values = length historical_years
             \<and> length net_present_values = length historical_years
          then Inr \<lparr> Year = historical_years,
                     Free_Cash_Flow = map millions historical_fcffs,
                     Terminal_Value = map millions terminal_values,
                     Net_Present_Value = map millions net_present_values \<rparr>
          else Inl ValueError)"

section \<open>The data frame, label resolution and FCFF\<close>

text \<open>
  \<open>apple_df\<close> is the frame that \<open>process_input_data\<close> (modelled further down) hands
  over: one row per fiscal year, each with its row label (the pandas index, which survives filtering, so it need
  not be \<open>0, 1, 2, ...\<close>), its fiscal year and its numeric cells; \<open>columns\<close> names the
  numeric columns the frame has, and a cell that is NaN is \<open>None\<close>. A pandas Series is
  the list of its labelled values. Row labels are taken to be distinct, as they are in a
  frame cut out of a merge result.
\<close>

record df_row =
  idx :: int
  fy :: int
  cell :: "string \<Rightarrow> pyfloat"

record dataframe =
  columns :: "string list"
  rows :: "df_row list"

type_synonym series = "(int \<times> pyfloat) list"

text \<open>\<open>df[label]\<close>, \<open>pd.Series([0] * n)\<close> with its fresh labels \<open>0 .. n - 1\<close>,
  \<open>.abs()\<close>, \<open>.sum()\<close> (which skips NaN) and \<open>.fillna(0)\<close>.\<close>

definition col :: "dataframe \<Rightarrow> string \<Rightarrow> series" where
  "col df label = map (\<lambda>r. (idx r, cell r label)) (rows df)"

definition zeros_series :: "nat \<Rightarrow> series" where
  "zeros_series n = map (\<lambda>i. (int i, Some 0)) [0..<n]"

definition series_abs :: "series \<Rightarrow> series" where
  "series_abs s = map (\<lambda>(k, v). (k, map_option abs v)) s"

definition series_sum :: "series \<Rightarrow> real" where
  "series_sum s = sum_list (map (\<lambda>(k, v). case v of None \<Rightarrow> 0 | Some x \<Rightarrow> x) s)"

definition fillna0 :: "series \<Rightarrow> series" where
  "fillna0 s = map (\<lambda>(k, v). (k, Some (case v of None \<Rightarrow> 0 | Some x \<Rightarrow> x))) s"

text \<open>
  \<^verbatim>\<open>
  def get_financial_value(df, possible_labels):
      max_abs_value = pd.Series([0] * len(df))  # Default if none of the labels exist
      found_label = None
      for label in possible_labels:
          if label in df.columns:
              current_abs_value = df[label].abs()
              # Check if current label's values have a higher absolute value
              if current_abs_value.sum() > max_abs_value.sum():
                  max_abs_value = df[label].fillna(0)
                  found_label = label
      print(f"Using label: {found_label} for calculation.")
      return max_abs_value
  \<close>
  The model returns the series together with the label that the function prints.
\<close>

definition label_step ::
  "dataframe \<Rightarrow> string \<Rightarrow> series \<times> string option \<Rightarrow> series \<times> string option" where
  "label_step df label st =
     (case st of (max_abs_value, found_label) \<Rightarrow>
        if label \<in> set (columns df) then
          (let current_abs_value = series_abs (col df label)
           in if series_sum current_abs_value > series_sum max_abs_value
              then (fillna0 (col df label), Some label)
              else (max_abs_value, found_label))
        else (max_abs_value, found_label))"

definition get_financial_value :: "dataframe \<Rightarrow> string list \<Rightarrow> series \<times> string option" where
  "get_financial_value df possible_labels =
     fold (label_step df) possible_labels (zeros_series (length (rows df)), None)"

text \<open>
  Line 73, \<open>apple_df['FCFF'] = cfo - capex\<close>. pandas lines both the subtraction and the
  assignment up on row labels: where the three label lists are the same the values pair
  off by position; otherwise a row gets the difference of the two values that carry its
  label, and NaN when either series has no such label.
\<close>

definition fcff_column :: "dataframe \<Rightarrow> series \<Rightarrow> series \<Rightarrow> pyfloat list" where
  "fcff_column df cfo capex =
     (if map fst cfo = map fst capex \<and> map fst cfo = map idx (rows df)
      then map (\<lambda>(a, b). fsub (snd a) (snd b)) (zip cfo capex)
      else map (\<lambda>r. case (map_of cfo (idx r), map_of capex (idx r)) of
                       (Some x, Some y) \<Rightarrow> fsub x y
                     | _ \<Rightarrow> None) (rows df))"

definition cfo_labels :: "string list" where
  "cfo_labels = [''NetCashProvidedByUsedInOperatingActivities'']"

definition capex_labels :: "string list" where
  "capex_labels = [''PaymentsToAcquirePropertyPlantAndEquipment'']"

section \<open>Loading and merging the statements\<close>

text \<open>
  \<open>process_input_data\<close>, lines 3 to 35. The sheet that \<open>pd.read_excel\<close> returns is
  the input: its column names and its rows, each with a fiscal year, a form, a company
  name (any of the three may be missing) and numeric cells.
  \<^item> \<open>df[[...]]\<close> raises \<open>KeyError\<close> when a named column is not in the sheet;
  \<^item> \<open>dropna(subset=['name'])\<close> drops the rows without a name;
  \<^item> \<open>groupby(['fy', 'form', name]).sum().reset_index()\<close> gives one row per key, in
    ascending order of the keys, with the sum of every item over the rows of the key
    (a missing cell counts as 0, a row with a missing key belongs to no group);
  \<^item> \<open>pd.merge(..., how='inner')\<close> pairs the rows with equal keys, in the order of the
    left frame, and numbers the result from 0;
  \<^item> the filter keeps the rows of \<open>'APPLE INC'\<close> (the three name columns of a merged
    row are equal, the merge joins on them) and \<open>drop_duplicates\<close> keeps the first row
    of each \<open>(fy, form)\<close>; both keep the row labels of the merged frame.
\<close>

record raw_row =
  raw_fy :: "int option"
  raw_form :: "string option"
  raw_name :: "string option"
  raw_cell :: "string \<Rightarrow> pyfloat"

record raw_frame =
  raw_columns :: "string list"
  raw_rows :: "raw_row list"

type_synonym group_key = "int \<times> string \<times> string"

definition key_columns :: "string list" where
  "key_columns = [''fy'', ''form'', ''name'']"

definition balance_sheet_items :: "string list" where
  "balance_sheet_items = [''Assets'', ''Liabilities'', ''Equity'']"

definition income_statement_items :: "string list" where
  "income_statement_items =
     [''Revenues'', ''OperatingIncomeLoss'',
      ''IncomeLossFromContinuingOperationsBeforeIncomeTaxExpenseBenefit'',
      ''AllIncomeTaxExpenseBenefit'']"

definition cash_flow_items :: "string list" where
  "cash_flow_items =
     [''NetCashProvidedByUsedInOperatingActivities'',
      ''PaymentsToAcquirePropertyPlantAndEquipment'',
      ''DepreciationDepletionAndAmortization'']"

definition select_columns :: "raw_frame \<Rightarrow> string list \<Rightarrow> py_error + raw_row list" where
  "select_columns df cols =
     (if list_all (\<lambda>c. c \<in> set (raw_columns df)) cols then Inr (raw_rows df) else Inl KeyError)"

definition dropna_name :: "raw_row list \<Rightarrow> raw_row list" where
  "dropna_name rs = filter (\<lambda>r. raw_name r \<noteq> None) rs"

definition key_of :: "raw_row \<Rightarrow> group_key option" where
  "key_of r =
     (case raw_fy r of
        None \<Rightarrow> None
      | Some y \<Rightarrow>
          (case raw_form r of
             None \<Rightarrow> None
           | Some f \<Rightarrow> (case raw_name r of None \<Rightarrow> None | Some n \<Rightarrow> Some (y, f, n))))"

definition groupby_sum ::
  "string list \<Rightarrow> raw_row list \<Rightarrow> (group_key \<times> (string \<Rightarrow> pyfloat)) list" where
  "groupby_sum items rs =
     map (\<lambda>k. (k, \<lambda>c. if c \<in> set items
                        then Some (sum_list (map (\<lambda>r. case raw_cell r c of None \<Rightarrow> 0 | Some x \<Rightarrow> x)
                                              (filter (\<lambda>r. key_of r = Some k) rs)))
                        else None))
         (sort (remdups (List.map_filter key_of rs)))"

definition merge_inner ::
  "(group_key \<times> 'a) list \<Rightarrow> (group_key \<times> 'b) list \<Rightarrow> (group_key \<times> 'a \<times> 'b) list" where
  "merge_inner left right =
     concat (map (\<lambda>(k, a). map (\<lambda>(k', b). (k, a, b)) (filter (\<lambda>(k', b). k' = k) right)) left)"

fun drop_duplicates :: "('a \<Rightarrow> 'k) \<Rightarrow> 'k list \<Rightarrow> 'a list \<Rightarrow> 'a list" where
  "drop_duplicates by_cols seen [] = []"
| "drop_duplicates by_cols seen (x # xs) =
     (if by_cols x \<in> set seen then drop_duplicates by_cols seen xs
      else x # drop_duplicates by_cols (by_cols x # seen) xs)"

definition process_input_data :: "raw_frame \<Rightarrow> py_error + dataframe" where
  "process_input_data df =
     (case select_columns df (key_columns @ balance_sheet_items) of
        Inl e \<Rightarrow> Inl e
      | Inr bs_rows \<Rightarrow>
     (case select_columns df (key_columns @ income_statement_items) of
        Inl e \<Rightarrow> Inl e
      | Inr is_rows \<Rightarrow>
     (case select_columns df (key_columns @ cash_flow_items) of
        Inl e \<Rightarrow> Inl e
      | Inr cf_rows \<Rightarrow>
          (let balance_sheet_df = groupby_sum balance_sheet_items (dropna_name bs_rows);
               income_statement_df = groupby_sum income_statement_items (dropna_name is_rows);
               cash_flow_df = groupby_sum cash_flow_items (dropna_name cf_rows);
               merged_df = enumerate 0
                 (merge_inner (merge_inner balance_sheet_df income_statement_df) cash_flow_df);
               apple_df = drop_duplicates (\<lambda>(i, (y, f, n), v). (y, f)) []
                 (filter (\<lambda>(i, (y, f, n), v). n = ''APPLE INC'') merged_df)
           in Inr \<lparr> columns = balance_sheet_items @ income_statement_items @ cash_flow_items,
                    rows = map (\<lambda>(i, (y, f, n), (bs, inc), cf).
                                  \<lparr> idx = int i, fy = y,
                                    cell = (\<lambda>c. if c \<in> set balance_sheet_items then bs c
                                                 else if c \<in> set income_statement_items then inc c
                                                 else cf c) \<rparr>) apple_df \<rparr>))))"

section \<open>The whole run\<close>

text \<open>\<open>dcf_analysis\<close>, from the sheet it reads to the frame it saves.\<close>

definition dcf_analysis :: "raw_frame \<Rightarrow> real \<Rightarrow> real \<Rightarrow> int \<Rightarrow> py_error + output_df" where
  "dcf_analysis input discount_rate terminal_growth_rate projection_years =
     (case process_input_data input of
        Inl e \<Rightarrow> Inl e
      | Inr apple_df \<Rightarrow>
          (let cfo = fst (get_financial_value apple_df cfo_labels);
               capex = fst (get_financial_value apple_df capex_labels);
               historical_years = map fy (rows apple_df);
               historical_fcffs = fcff_column apple_df cfo capex
           in valuation_table historical_years historical_fcffs
                discount_rate terminal_growth_rate projection_years))"

section \<open>List access and comprehensions\<close>

lemma py_index_nat:
  "j < length xs \<Longrightarrow> py_index xs (int j) = Inr (xs ! j)"
  by (simp add: py_index_def)

lemma py_index_minus_one:
  "xs \<noteq> [] \<Longrightarrow> py_index xs (- 1) = Inr (xs ! (length xs - 1))"
  by (cases xs) (simp_all add: py_index_def nat_diff_distrib)

lemma map_err_Inr:
  "(\<And>x. x \<in> set xs \<Longrightarrow> f x = Inr (h x)) \<Longrightarrow> map_err f xs = Inr (map h xs)"
  by (induction xs) simp_all

lemma map_err_first_fails:
  "f x = Inl e \<Longrightarrow> map_err f (x # xs) = Inl e"
  by simp

lemma map_err_map:
  "map_err f (map k xs) = map_err (\<lambda>x. f (k x)) xs"
  by (induction xs) (simp_all split: sum.splits)

lemma map_err_nth:
  "map_err (\<lambda>i. F (xs ! i)) [0..<length xs] = map_err F xs"
proof -
  have "map_err F (map ((!) xs) [0..<length xs]) = map_err (\<lambda>i. F (xs ! i)) [0..<length xs]"
    by (rule map_err_map)
  then show ?thesis
    by (simp add: map_nth)
qed

lemma map_err_InrD:
  "map_err f xs = Inr ys \<Longrightarrow> length ys = length xs \<and> (\<forall>k<length xs. f (xs ! k) = Inr (ys ! k))"
proof (induction xs arbitrary: ys)
  case Nil
  then show ?case by simp
next
  case (Cons x xs)
  from Cons.prems obtain y ys' where fx: "f x = Inr y" and rest: "map_err f xs = Inr ys'"
    and ys: "ys = y # ys'"
    by (auto split: sum.splits)
  from Cons.IH [OF rest] have len: "length ys' = length xs"
    and nth: "\<forall>k<length xs. f (xs ! k) = Inr (ys' ! k)"
    by simp_all
  show ?case
  proof (intro conjI allI impI)
    show "length ys = length (x # xs)" using ys len by simp
  next
    fix k assume "k < length (x # xs)"
    then show "f ((x # xs) ! k) = Inr (ys ! k)"
      using fx nth ys by (cases k) simp_all
  qed
qed

section \<open>Projection\<close>

lemma length_projected_fcffs [simp]:
  "length (projected_fcffs f g N) = nat N"
  by (simp add: projected_fcffs_def)

lemma length_discount_factors [simp]:
  "length (discount_factors r N) = nat N"
  by (simp add: discount_factors_def)

lemma nth_projected_fcffs:
  assumes "j < nat N"
  shows "projected_fcffs f g N ! j = fmul f ((1 + g) ^ (j + 1))"
proof -
  from assms have "[1..N] ! j = 1 + int j"
    by (simp add: nth_upto)
  with assms show ?thesis
    by (simp add: projected_fcffs_def nat_add_distrib)
qed

lemma nth_discount_factors:
  assumes "j < nat N"
  shows "discount_factors r N ! j = (1 + r) ^ (j + 1)"
proof -
  from assms have "[1..N] ! j = 1 + int j"
    by (simp add: nth_upto)
  with assms show ?thesis
    by (simp add: discount_factors_def nat_add_distrib)
qed

text \<open>
  C6. Projection is a function of the FCFF value, the growth rate and the horizon
  alone. Its result has as many elements as the horizon says, none for horizon 0, and
  the element at index \<open>j\<close> (from 0) is the FCFF value times \<open>(1 + g) ^ (j + 1)\<close>
  (NaN for a NaN input).
\<close>

theorem projection_elements:
  "length (projected_fcffs (Some fcff) g N) = nat N
   \<and> projected_fcffs (Some fcff) g 0 = []
   \<and> projected_fcffs None g 0 = []
   \<and> (\<forall>j. int j < N \<longrightarrow>
         projected_fcffs (Some fcff) g N ! j = Some (fcff * (1 + g) ^ (j + 1))
         \<and> projected_fcffs None g N ! j = None)"
  by (auto simp add: nth_projected_fcffs fmul_def) (simp add: projected_fcffs_def)+

theorem projection_elements_witness:
  "int 1 < 3 \<and> projected_fcffs (Some 100) (1 / 2) 3 ! 1 = Some 225
   \<and> length (projected_fcffs (Some 100) (1 / 2) 3) = 3"
  using projection_elements [of 100 "1 / 2" 3]
  by (simp add: power2_eq_square)

section \<open>Discounting and the terminal value\<close>

lemma one_plus_nonzero: "r \<noteq> - 1 \<Longrightarrow> 1 + r \<noteq> (0::real)"
  by arith

lemma discounted_fcffs_ok:
  assumes "r \<noteq> - 1"
  shows "discounted_fcffs (projected_fcffs f g N) (discount_factors r N) =
           Inr (map (\<lambda>(j, p). map_option (\<lambda>a. a / (1 + r) ^ (j + 1)) p)
                  (enumerate 0 (projected_fcffs f g N)))"
  unfolding discounted_fcffs_def
proof (rule map_err_Inr)
  fix x assume x: "x \<in> set (enumerate 0 (projected_fcffs f g N))"
  obtain j p where jp: "x = (j, p)" by (cases x)
  from x jp have j: "j < nat N"
    by (simp add: in_set_enumerate_eq)
  have nz: "(1 + r) ^ (j + 1) \<noteq> 0"
    using one_plus_nonzero [OF assms] by simp
  have "py_index (discount_factors r N) (int j) = Inr ((1 + r) ^ (j + 1))"
    using j by (simp add: py_index_nat nth_discount_factors)
  then show "(case x of (j, fcff) \<Rightarrow>
                 case py_index (discount_factors r N) (int j) of
                   Inl e \<Rightarrow> Inl e | Inr d \<Rightarrow> fdiv fcff d) =
             Inr (case x of (j, p) \<Rightarrow> map_option (\<lambda>a. a / (1 + r) ^ (j + 1)) p)"
    using nz jp by (simp add: fdiv_def)
qed

lemma nth_discounted:
  assumes "j < nat N"
  shows "map (\<lambda>(j, p). map_option (\<lambda>a. a / (1 + r) ^ (j + 1)) p)
           (enumerate 0 (projected_fcffs f g N)) ! j
         = map_option (\<lambda>a. a * ((1 + g) / (1 + r)) ^ (j + 1)) f"
  using assms
  by (simp add: nth_enumerate_eq nth_projected_fcffs fmul_def option.map_comp comp_def
        power_divide)

lemma discounted_fcffs_fails:
  assumes "1 \<le> N"
  shows "discounted_fcffs (projected_fcffs f g N) (discount_factors (- 1) N) = Inl ZeroDivisionError"
proof -
  from assms have ne: "projected_fcffs f g N \<noteq> []"
    by (simp add: projected_fcffs_def)
  then obtain p ps where ps: "projected_fcffs f g N = p # ps"
    by (cases "projected_fcffs f g N") simp_all
  have "py_index (discount_factors (- 1) N) 0 = Inr 0"
    using assms py_index_nat [of 0 "discount_factors (- 1) N"]
      nth_discount_factors [of 0 N "- 1"]
    by simp
  then show ?thesis
    by (simp add: discounted_fcffs_def ps fdiv_def)
qed

lemma terminal_value_ok:
  assumes "1 \<le> N" and "r \<noteq> g"
  shows "terminal_value (projected_fcffs f g N) r g =
           Inr (map_option (\<lambda>p. p * (1 + g) / (r - g)) (projected_fcffs f g N ! (nat N - 1)))"
proof -
  from assms have ne: "projected_fcffs f g N \<noteq> []"
    by (simp add: projected_fcffs_def)
  show ?thesis
    using assms py_index_minus_one [OF ne]
    by (simp add: terminal_value_def fdiv_def fmul_def option.map_comp comp_def)
qed

lemma terminal_value_fails:
  assumes "1 \<le> N"
  shows "terminal_value (projected_fcffs f g N) g g = Inl ZeroDivisionError"
proof -
  from assms have ne: "projected_fcffs f g N \<noteq> []"
    by (simp add: projected_fcffs_def)
  show ?thesis
    using py_index_minus_one [OF ne]
    by (simp add: terminal_value_def fdiv_def)
qed

lemma terminal_value_pv_ok:
  assumes "1 \<le> N" and "r \<noteq> - 1"
  shows "terminal_value_pv tv (discount_factors r N) =
           Inr (map_option (\<lambda>a. a / (1 + r) ^ nat N) tv)"
proof -
  from assms have ne: "discount_factors r N \<noteq> []"
    by (simp add: discount_factors_def)
  have last: "discount_factors r N ! (nat N - 1) = (1 + r) ^ nat N"
    using assms nth_discount_factors [of "nat N - 1" N r] by simp
  show ?thesis
    using one_plus_nonzero [OF assms(2)] py_index_minus_one [OF ne] last
    by (simp add: terminal_value_pv_def fdiv_def)
qed


lemma dcf_year_ok:
  assumes "r \<noteq> - 1" and "r \<noteq> g" and "1 \<le> N"
  shows "dcf_year f r g N =
           Inr (map_option (\<lambda>p. p * (1 + g) / (r - g) / (1 + r) ^ nat N)
                  (projected_fcffs f g N ! (nat N - 1)),
                fadd (py_sum (map (\<lambda>(j, p). map_option (\<lambda>a. a / (1 + r) ^ (j + 1)) p)
                                (enumerate 0 (projected_fcffs f g N))))
                     (map_option (\<lambda>p. p * (1 + g) / (r - g) / (1 + r) ^ nat N)
                        (projected_fcffs f g N ! (nat N - 1))))"
  using assms
  by (simp add: dcf_year_def Let_def discounted_fcffs_ok terminal_value_ok terminal_value_pv_ok
        option.map_comp comp_def)

lemma dcf_year_fails:
  assumes "r = g \<or> r = - 1" and "1 \<le> N"
  shows "dcf_year f r g N = Inl ZeroDivisionError"
proof (cases "r = - 1")
  case True
  then show ?thesis
    using assms(2) by (simp add: dcf_year_def Let_def discounted_fcffs_fails)
next
  case False
  with assms(1) have "r = g" by simp
  with False assms(2) show ?thesis
    by (simp add: dcf_year_def Let_def discounted_fcffs_ok terminal_value_fails)
qed

section \<open>The loop as a comprehension\<close>

lemma dcf_loop_map_err:
  assumes "\<And>i. i \<in> set ks \<Longrightarrow> i < length fcffs \<and> i < length years"
  shows "dcf_loop years fcffs r g N ks (tvs, npvs) =
           (case map_err (\<lambda>i. dcf_year (fcffs ! i) r g N) ks of
              Inl e \<Rightarrow> Inl e
            | Inr ps \<Rightarrow> Inr (tvs @ map fst ps, npvs @ map snd ps))"
  using assms
proof (induction ks arbitrary: tvs npvs)
  case Nil
  show ?case by simp
next
  case (Cons i rest)
  have i: "i < length fcffs" "i < length years"
    using Cons.prems by simp_all
  have rest: "\<And>j. j \<in> set rest \<Longrightarrow> j < length fcffs \<and> j < length years"
    using Cons.prems by simp
  show ?case
    using i Cons.IH [OF rest]
    by (simp add: py_index_nat split: sum.splits prod.splits)
qed

lemma valuation_table_eq:
  assumes "length years = length fcffs"
  shows "valuation_table years fcffs r g N =
           (case map_err (\<lambda>f. dcf_year f r g N) fcffs of
              Inl e \<Rightarrow> Inl e
            | Inr ps \<Rightarrow> Inr \<lparr> Year = years,
                              Free_Cash_Flow = map millions fcffs,
                              Terminal_Value = map (\<lambda>p. millions (fst p)) ps,
                              Net_Present_Value = map (\<lambda>p. millions (snd p)) ps \<rparr>)"
proof -
  have loop: "dcf_loop years fcffs r g N [0..<length fcffs] ([], []) =
                (case map_err (\<lambda>f. dcf_year f r g N) fcffs of
                   Inl e \<Rightarrow> Inl e
                 | Inr ps \<Rightarrow> Inr (map fst ps, map snd ps))"
    using dcf_loop_map_err [of "[0..<length fcffs]" fcffs years r g N "[]" "[]"] assms
      map_err_nth [of "\<lambda>f. dcf_year f r g N" fcffs]
    by (simp split: sum.splits)
  show ?thesis
  proof (cases "map_err (\<lambda>f. dcf_year f r g N) fcffs")
    case (Inl e)
    then show ?thesis
      by (simp add: valuation_table_def loop)
  next
    case (Inr ps)
    from map_err_InrD [OF Inr] have "length ps = length fcffs"
      by simp
    with Inr assms show ?thesis
      by (simp add: valuation_table_def loop comp_def)
  qed
qed


lemma valuation_table_nth:
  assumes "valuation_table years fcffs r g N = Inr out" and "i < length fcffs"
  shows "\<exists>tv npv. dcf_year (fcffs ! i) r g N = Inr (tv, npv)
           \<and> Free_Cash_Flow out ! i = millions (fcffs ! i)
           \<and> Terminal_Value out ! i = millions tv
           \<and> Net_Present_Value out ! i = millions npv"
proof -
  from assms(1) have len: "length years = length fcffs"
    by (auto simp add: valuation_table_def split: sum.splits prod.splits if_splits)
  show ?thesis
  proof (cases "map_err (\<lambda>f. dcf_year f r g N) fcffs")
    case (Inl e)
    with assms(1) len show ?thesis
      by (simp add: valuation_table_eq)
  next
    case (Inr ps)
    from map_err_InrD [OF Inr] assms(2)
    have ps: "length ps = length fcffs" "dcf_year (fcffs ! i) r g N = Inr (ps ! i)"
      by simp_all
    from Inr assms(1) len
    have out: "out = \<lparr> Year = years,
                        Free_Cash_Flow = map millions fcffs,
                        Terminal_Value = map (\<lambda>p. millions (fst p)) ps,
                        Net_Present_Value = map (\<lambda>p. millions (snd p)) ps \<rparr>"
      by (simp add: valuation_table_eq)
    show ?thesis
      using ps assms(2) by (intro exI [of _ "fst (ps ! i)"] exI [of _ "snd (ps ! i)"]) (simp add: out)
  qed
qed

lemma py_index_zero:
  "xs \<noteq> [] \<Longrightarrow> py_index xs 0 = Inr (xs ! 0)"
  using py_index_nat [of 0 xs] by simp

lemma upto_one_one: "[1..1::int] = [1]"
  by (simp add: upto_rec1)

lemma projected_fcffs_one: "projected_fcffs f g 1 = [fmul f (1 + g)]"
  by (simp add: projected_fcffs_def upto_one_one)

lemma discount_factors_one: "discount_factors r 1 = [1 + r]"
  by (simp add: discount_factors_def upto_one_one)

lemma dcf_year_example: "dcf_year (Some f) 1 0 1 = Inr (Some (f / 2), Some f)"
  using dcf_year_ok [of 1 0 1 "Some f"]
  by (simp add: projected_fcffs_one fmul_def py_sum_def fadd_def)

lemma fold_label_step_absent:
  "set ls \<inter> set (columns df) = {} \<Longrightarrow> fold (label_step df) ls st = st"
  by (induction ls arbitrary: st) (auto simp add: label_step_def)

lemma get_financial_value_absent:
  "set possible_labels \<inter> set (columns df) = {} \<Longrightarrow>
     get_financial_value df possible_labels = (zeros_series (length (rows df)), None)"
  by (simp add: get_financial_value_def fold_label_step_absent)

section \<open>Label resolution and FCFF on well-behaved frames\<close>

text \<open>
  Two facts about frames on which the resolver and line 73 behave as intended. Where the
  rows are labelled \<open>0 .. n - 1\<close>, a concept without any column counts as zero: FCFF is
  the resolved operating cash flow. Where no candidate column holds a negative value,
  the label that \<open>get_financial_value\<close> keeps has the greatest total of absolute values
  among the candidates present, the first-listed wins a tie, and no label is kept when
  every total is zero.
\<close>

lemma series_sum_zeros: "series_sum (zeros_series n) = 0"
  by (simp add: series_sum_def zeros_series_def comp_def)

lemma series_sum_abs_nonneg: "0 \<le> series_sum (series_abs s)"
  by (induction s) (auto simp add: series_sum_def series_abs_def split: option.splits)

lemma series_sum_fillna0_nonneg:
  assumes "\<And>r x. r \<in> set (rows df) \<Longrightarrow> cell r l = Some x \<Longrightarrow> 0 \<le> x"
  shows "series_sum (fillna0 (col df l)) = series_sum (series_abs (col df l))"
proof -
  have kept: "series_sum (fillna0 (col df l)) =
                sum_list (map (\<lambda>r. case cell r l of None \<Rightarrow> 0 | Some x \<Rightarrow> x) (rows df))"
    by (simp add: series_sum_def fillna0_def col_def comp_def)
  have cand: "series_sum (series_abs (col df l)) =
                sum_list (map (\<lambda>r. case cell r l of None \<Rightarrow> 0 | Some x \<Rightarrow> \<bar>x\<bar>) (rows df))"
    by (simp add: series_sum_def series_abs_def col_def comp_def cong: option.case_cong)
  have "map (\<lambda>r. case cell r l of None \<Rightarrow> 0 | Some x \<Rightarrow> x) (rows df) =
        map (\<lambda>r. case cell r l of None \<Rightarrow> 0 | Some x \<Rightarrow> \<bar>x\<bar>) (rows df)"
    using assms by (intro map_cong refl) (auto split: option.splits)
  then show ?thesis
    by (simp only: kept cand)
qed

lemma fold_label_step_invariant:
  assumes "P st" and "\<And>l s. P s \<Longrightarrow> P (label_step df l s)"
  shows "P (fold (label_step df) ls st)"
  using assms(1)
  by (induction ls arbitrary: st) (simp_all add: assms(2))

lemma get_financial_value_aligned:
  assumes "map idx (rows df) = map int [0..<length (rows df)]"
  shows "map fst (fst (get_financial_value df ls)) = map idx (rows df)
       \<and> (\<forall>a \<in> set (fst (get_financial_value df ls)). snd a \<noteq> None)"
  unfolding get_financial_value_def
proof (rule fold_label_step_invariant)
  show "map fst (fst (zeros_series (length (rows df)), None :: string option)) = map idx (rows df)
      \<and> (\<forall>a \<in> set (fst (zeros_series (length (rows df)), None :: string option)). snd a \<noteq> None)"
    using assms by (auto simp add: zeros_series_def comp_def)
next
  fix l and s :: "series \<times> string option"
  assume "map fst (fst s) = map idx (rows df) \<and> (\<forall>a \<in> set (fst s). snd a \<noteq> None)"
  then show "map fst (fst (label_step df l s)) = map idx (rows df)
           \<and> (\<forall>a \<in> set (fst (label_step df l s)). snd a \<noteq> None)"
    by (cases s) (auto simp add: label_step_def Let_def fillna0_def col_def comp_def)
qed

lemma sub_zeros:
  assumes "length s = length z" and "\<forall>b \<in> set z. snd b = Some 0" and "\<forall>a \<in> set s. snd a \<noteq> None"
  shows "map (\<lambda>(a, b). fsub (snd a) (snd b)) (zip s z) = map snd s"
  using assms
  by (induction s z rule: list_induct2) (auto simp add: fsub_def)

lemma fcff_without_capex_aligned:
  assumes "set capex_ls \<inter> set (columns df) = {}"
      and "map idx (rows df) = map int [0..<length (rows df)]"
  shows "fcff_column df (fst (get_financial_value df cfo_ls))
           (fst (get_financial_value df capex_ls))
         = map snd (fst (get_financial_value df cfo_ls))"
proof -
  let ?cfo = "fst (get_financial_value df cfo_ls)"
  let ?z = "zeros_series (length (rows df))"
  from get_financial_value_aligned [OF assms(2), of cfo_ls]
  have ix: "map fst ?cfo = map idx (rows df)" and some: "\<forall>a \<in> set ?cfo. snd a \<noteq> None"
    by simp_all
  have zi: "map fst ?z = map idx (rows df)"
    using assms(2) by (simp add: zeros_series_def comp_def)
  have len: "length ?cfo = length ?z"
    using ix zi by (metis length_map)
  have z0: "\<forall>b \<in> set ?z. snd b = Some 0"
    by (auto simp add: zeros_series_def)
  show ?thesis
    using sub_zeros [OF len z0 some] ix zi
    by (simp add: get_financial_value_absent [OF assms(1)] fcff_column_def)
qed

lemma get_financial_value_nonneg:
  assumes "\<And>l r x. l \<in> set ls \<Longrightarrow> l \<in> set (columns df) \<Longrightarrow> r \<in> set (rows df)
             \<Longrightarrow> cell r l = Some x \<Longrightarrow> 0 \<le> x"
  shows "\<exists>mx found.
           get_financial_value df ls = (mx, found)
         \<and> (case found of
               None \<Rightarrow> mx = zeros_series (length (rows df))
                 \<and> (\<forall>l \<in> set ls \<inter> set (columns df). series_sum (series_abs (col df l)) = 0)
             | Some w \<Rightarrow> mx = fillna0 (col df w) \<and> w \<in> set (columns df)
                 \<and> (\<exists>pre post. ls = pre @ w # post
                      \<and> (\<forall>l \<in> set pre \<inter> set (columns df).
                            series_sum (series_abs (col df l)) < series_sum (series_abs (col df w)))
                      \<and> (\<forall>l \<in> set post \<inter> set (columns df).
                            series_sum (series_abs (col df l)) \<le> series_sum (series_abs (col df w)))))"
  using assms unfolding get_financial_value_def
proof (induction ls rule: rev_induct)
  case Nil
  show ?case by simp
next
  case (snoc x xs)
  have nn: "0 \<le> v"
    if "l \<in> set xs" "l \<in> set (columns df)" "r \<in> set (rows df)" "cell r l = Some v" for l r v
    using snoc.prems [of l r v] that by simp
  let ?inv = "\<lambda>ks mx found. case found of
               None \<Rightarrow> mx = zeros_series (length (rows df))
                 \<and> (\<forall>l \<in> set ks \<inter> set (columns df). series_sum (series_abs (col df l)) = 0)
             | Some w \<Rightarrow> mx = fillna0 (col df w) \<and> w \<in> set (columns df)
                 \<and> (\<exists>pre post. ks = pre @ w # post
                      \<and> (\<forall>l \<in> set pre \<inter> set (columns df).
                            series_sum (series_abs (col df l)) < series_sum (series_abs (col df w)))
                      \<and> (\<forall>l \<in> set post \<inter> set (columns df).
                            series_sum (series_abs (col df l)) \<le> series_sum (series_abs (col df w))))"
  have "\<exists>mx found. fold (label_step df) xs (zeros_series (length (rows df)), None) = (mx, found)
          \<and> ?inv xs mx found"
    by (rule snoc.IH) (blast intro: nn)
  then obtain mx found where
    st: "fold (label_step df) xs (zeros_series (length (rows df)), None) = (mx, found)"
    and inv: "?inv xs mx found"
    by blast
  let ?A = "\<lambda>l. series_sum (series_abs (col df l))"
  have kept: "series_sum mx = (case found of None \<Rightarrow> 0 | Some w \<Rightarrow> ?A w)"
  proof (cases found)
    case None
    with inv show ?thesis by (simp add: series_sum_zeros)
  next
    case (Some w)
    with inv obtain pre post where w: "mx = fillna0 (col df w)" "w \<in> set (columns df)"
      "xs = pre @ w # post"
      by auto
    then have "w \<in> set xs" by simp
    then have "series_sum (fillna0 (col df w)) = ?A w"
      using nn w(2) by (intro series_sum_fillna0_nonneg) blast
    with Some w show ?thesis by simp
  qed
  have bound: "\<forall>l \<in> set xs \<inter> set (columns df). ?A l \<le> series_sum mx"
  proof (cases found)
    case None
    with inv kept show ?thesis by simp
  next
    case (Some w)
    with inv kept show ?thesis by (auto simp add: less_imp_le)
  qed
  show ?case
  proof (cases "x \<in> set (columns df) \<and> series_sum mx < ?A x")
    case True
    then have step: "fold (label_step df) (xs @ [x]) (zeros_series (length (rows df)), None)
                     = (fillna0 (col df x), Some x)"
      by (simp add: st label_step_def Let_def)
    have "\<forall>l \<in> set xs \<inter> set (columns df). ?A l < ?A x"
      using bound True by force
    then show ?thesis
      unfolding step using True
      by (simp, intro exI [of _ xs] exI [of _ "[]"]) simp
  next
    case False
    then have step: "fold (label_step df) (xs @ [x]) (zeros_series (length (rows df)), None)
                     = (mx, found)"
      by (auto simp add: st label_step_def Let_def)
    from False have x: "x \<in> set (columns df) \<Longrightarrow> ?A x \<le> series_sum mx"
      by simp
    show ?thesis
    proof (cases found)
      case None
      have "x \<in> set (columns df) \<Longrightarrow> ?A x = 0"
        using x kept None series_sum_abs_nonneg [of "col df x"] by simp
      with inv None show ?thesis
        unfolding step by auto
    next
      case (Some w)
      with inv obtain pre post where w: "mx = fillna0 (col df w)" "w \<in> set (columns df)"
        "xs = pre @ w # post"
        "\<forall>l \<in> set pre \<inter> set (columns df). ?A l < ?A w"
        "\<forall>l \<in> set post \<inter> set (columns df). ?A l \<le> ?A w"
        by auto
      have "\<forall>l \<in> set (post @ [x]) \<inter> set (columns df). ?A l \<le> ?A w"
        using w(5) x kept Some by auto
      with w Some show ?thesis
        unfolding step
        by (simp, intro exI [of _ pre] exI [of _ "post @ [x]"]) simp
    qed
  qed
qed

section \<open>Python's sum on a series with NaN\<close>






lemma select_columns_error: "select_columns df cols = Inl e \<Longrightarrow> e = KeyError"
  by (simp add: select_columns_def split: if_splits)



section \<open>Claims\<close>

text \<open>
  C3. For a discount rate above \<open>-1\<close> and different from the growth rate and a horizon of
  at least one year, the terminal value is the last projected element (index \<open>N - 1\<close>)
  times \<open>(1 + g)\<close> divided by \<open>(r - g)\<close>, and the present value that the year reports is
  that terminal value divided by \<open>(1 + r) ^ N\<close>.
\<close>

theorem terminal_value_present_value:
  assumes "- 1 < r" and "r \<noteq> g" and "1 \<le> N"
  shows "terminal_value (projected_fcffs fcff g N) r g =
           Inr (map_option (\<lambda>p. p * (1 + g) / (r - g)) (projected_fcffs fcff g N ! (nat N - 1)))
       \<and> terminal_value_pv
           (map_option (\<lambda>p. p * (1 + g) / (r - g)) (projected_fcffs fcff g N ! (nat N - 1)))
           (discount_factors r N) =
           Inr (map_option (\<lambda>p. p * (1 + g) / (r - g) / (1 + r) ^ nat N)
                  (projected_fcffs fcff g N ! (nat N - 1)))
       \<and> (\<exists>npv. dcf_year fcff r g N =
             Inr (map_option (\<lambda>p. p * (1 + g) / (r - g) / (1 + r) ^ nat N)
                    (projected_fcffs fcff g N ! (nat N - 1)), npv))"
proof -
  from assms(1) have rm: "r \<noteq> - 1" by simp
  show ?thesis
    using assms(2,3) rm
    by (simp add: terminal_value_ok terminal_value_pv_ok dcf_year_ok option.map_comp comp_def)
qed

theorem terminal_value_present_value_witness:
  "(- 1 :: real) < 1 / 10 \<and> (1 / 10 :: real) \<noteq> 1 / 50 \<and> (1 :: int) \<le> 1
   \<and> terminal_value (projected_fcffs (Some 100) (1 / 50) 1) (1 / 10) (1 / 50) = Inr (Some (2601 / 2))
   \<and> terminal_value_pv (Some (2601 / 2)) (discount_factors (1 / 10) 1) = Inr (Some (13005 / 11))"
  using terminal_value_present_value [of "1 / 10" "1 / 50" 1 "Some 100"]
  by (simp add: projected_fcffs_one fmul_def)

text \<open>
  C4. For a discount rate above \<open>-1\<close> and different from the growth rate, and a horizon
  \<open>N \<ge> 0\<close>, discounting the projected series succeeds, keeps its length, and its element
  at index \<open>j\<close> is the FCFF value times \<open>((1 + g) / (1 + r)) ^ (j + 1)\<close>, for every index
  below \<open>N\<close>.
\<close>

theorem discounted_projection:
  assumes "- 1 < r" and "r \<noteq> g" and "0 \<le> N"
  shows "\<exists>discounted.
           discounted_fcffs (projected_fcffs (Some fcff) g N) (discount_factors r N) = Inr discounted
         \<and> length discounted = length (projected_fcffs (Some fcff) g N)
         \<and> int (length discounted) = N
         \<and> (\<forall>j < nat N. discounted ! j = Some (fcff * ((1 + g) / (1 + r)) ^ (j + 1)))"
proof -
  from assms(1) have rm: "r \<noteq> - 1" by simp
  show ?thesis
    using assms(3) nth_discounted [of _ N r "Some fcff" g]
    by (simp add: discounted_fcffs_ok [OF rm])
qed

theorem discounted_projection_witness:
  "(- 1 :: real) < 1 \<and> (1 :: real) \<noteq> 0 \<and> (0 :: int) \<le> 2
   \<and> (\<exists>discounted.
         discounted_fcffs (projected_fcffs (Some 100) 0 2) (discount_factors 1 2) = Inr discounted
       \<and> length discounted = 2 \<and> discounted ! 0 = Some 50 \<and> discounted ! 1 = Some 25)"
proof -
  have h: "(- 1 :: real) < 1" "(1 :: real) \<noteq> 0" "(0 :: int) \<le> 2"
    by simp_all
  from discounted_projection [OF h, of 100] obtain ds where
    ds: "discounted_fcffs (projected_fcffs (Some 100) 0 2) (discount_factors 1 2) = Inr ds"
      and len: "int (length ds) = 2"
      and nth: "\<forall>j < nat 2. ds ! j = Some (100 * ((1 + 0) / (1 + 1)) ^ (j + 1))"
    by blast
  from nth have "ds ! 0 = Some 50" "ds ! 1 = Some 25"
    by (simp_all add: power2_eq_square)
  with ds len h show ?thesis
    by simp
qed

text \<open>
  C9. With a horizon of at least one year the projected series and the list of discount
  factors both have \<open>N\<close> elements, so neither is empty, the two reads of a last element
  (\<open>[-1]\<close>) in the terminal-value step are in bounds, and that step does not fail on
  indexing.
\<close>

theorem terminal_value_indexing_in_bounds:
  assumes "1 \<le> N"
  shows "length (projected_fcffs fcff g N) = nat N
       \<and> length (discount_factors r N) = nat N
       \<and> projected_fcffs fcff g N \<noteq> []
       \<and> discount_factors r N \<noteq> []
       \<and> py_index (projected_fcffs fcff g N) (- 1) = Inr (projected_fcffs fcff g N ! (nat N - 1))
       \<and> py_index (discount_factors r N) (- 1) = Inr (discount_factors r N ! (nat N - 1))
       \<and> terminal_value (projected_fcffs fcff g N) r g \<noteq> Inl IndexError
       \<and> terminal_value_pv tv (discount_factors r N) \<noteq> Inl IndexError"
proof -
  from assms have p: "projected_fcffs fcff g N \<noteq> []"
    by (simp add: projected_fcffs_def)
  from assms have d: "discount_factors r N \<noteq> []"
    by (simp add: discount_factors_def)
  show ?thesis
    using p d py_index_minus_one [OF p] py_index_minus_one [OF d]
    by (simp add: terminal_value_def terminal_value_pv_def fdiv_def)
qed

theorem terminal_value_indexing_in_bounds_witness:
  "(1 :: int) \<le> 1
   \<and> py_index (projected_fcffs (Some 100) 0 1) (- 1) = Inr (Some 100)
   \<and> py_index (discount_factors 0 1) (- 1) = Inr 1"
  using terminal_value_indexing_in_bounds [of 1 "Some 100" 0 0]
  by (simp add: projected_fcffs_one discount_factors_one fmul_def)

text \<open>
  C2, as the code has it. There is no check of the rates. With the discount rate equal
  to the growth rate, or equal to \<open>-1\<close>, a horizon of at least one year and at least one
  historical year, the valuation of the first year divides by zero: the run ends with
  \<open>ZeroDivisionError\<close> and no table. A discount rate below \<open>-1\<close> that differs from the
  growth rate is valued like any other, and so is any pair of rates when there is no
  historical year.
\<close>

theorem invalid_rates_zero_division:
  assumes "r = g \<or> r = - 1" and "1 \<le> N" and "fcffs \<noteq> []" and "years \<noteq> []"
  shows "dcf_year (fcffs ! 0) r g N = Inl ZeroDivisionError
       \<and> valuation_table years fcffs r g N = Inl ZeroDivisionError"
proof -
  have year: "dcf_year (fcffs ! 0) r g N = Inl ZeroDivisionError"
    using assms(1,2) by (rule dcf_year_fails)
  from assms(3) have upt: "[0..<length fcffs] = 0 # [Suc 0..<length fcffs]"
    by (simp add: upt_conv_Cons)
  have "dcf_loop years fcffs r g N (0 # [Suc 0..<length fcffs]) ([], []) = Inl ZeroDivisionError"
    using py_index_zero [OF assms(3)] py_index_zero [OF assms(4)] year
    by simp
  with year show ?thesis
    by (simp add: valuation_table_def upt)
qed

theorem invalid_rates_zero_division_witness:
  "((1 / 10 :: real) = 1 / 10 \<or> (1 / 10 :: real) = - 1) \<and> (1 :: int) \<le> 20
   \<and> [Some (100 :: real)] \<noteq> [] \<and> [2020 :: int] \<noteq> []
   \<and> valuation_table [2020] [Some 100] (1 / 10) (1 / 10) 20 = Inl ZeroDivisionError"
  using invalid_rates_zero_division [of "1 / 10" "1 / 10" 20 "[Some 100]" "[2020]"]
  by simp

text \<open>
  C2 as stated fails on the code: a discount rate of \<open>-2\<close> is valued without any error,
  and equal rates with no historical years give an empty table.
\<close>

theorem rates_not_validated:
  "valuation_table [2020] [Some 100] (- 2) 0 1 =
     Inr \<lparr> Year = [2020],
           Free_Cash_Flow = [Some (1 / 10000)],
           Terminal_Value = [Some (1 / 20000)],
           Net_Present_Value = [Some (- (1 / 20000))] \<rparr>
   \<and> valuation_table [] [] (1 / 10) (1 / 10) 20 =
     Inr \<lparr> Year = [], Free_Cash_Flow = [], Terminal_Value = [], Net_Present_Value = [] \<rparr>"
proof -
  have "dcf_year (Some 100) (- 2) 0 1 = Inr (Some 50, Some (- 50))"
    using dcf_year_ok [of "- 2" 0 1 "Some 100"]
    by (simp add: projected_fcffs_one fmul_def py_sum_def fadd_def)
  then show ?thesis
    by (simp add: valuation_table_eq millions_def)
qed




text \<open>
  C10. In two runs with the same rates and horizon whose lists of historical FCFF agree
  at index \<open>i\<close>, row \<open>i\<close> of the two tables holds the same terminal-value present value
  and the same NPV: both are the valuation of that year's FCFF alone.
\<close>

theorem year_valuation_independent:
  assumes "valuation_table years1 fcffs1 r g N = Inr out1"
      and "valuation_table years2 fcffs2 r g N = Inr out2"
      and "i < length fcffs1" and "i < length fcffs2"
      and "fcffs1 ! i = fcffs2 ! i"
  shows "Terminal_Value out1 ! i = Terminal_Value out2 ! i
       \<and> Net_Present_Value out1 ! i = Net_Present_Value out2 ! i
       \<and> (\<exists>tv npv. dcf_year (fcffs1 ! i) r g N = Inr (tv, npv)
             \<and> Terminal_Value out1 ! i = millions tv
             \<and> Net_Present_Value out1 ! i = millions npv)"
proof -
  from valuation_table_nth [OF assms(1,3)] obtain tv1 npv1 where
    1: "dcf_year (fcffs1 ! i) r g N = Inr (tv1, npv1)"
       "Terminal_Value out1 ! i = millions tv1" "Net_Present_Value out1 ! i = millions npv1"
    by blast
  from valuation_table_nth [OF assms(2,4)] obtain tv2 npv2 where
    2: "dcf_year (fcffs2 ! i) r g N = Inr (tv2, npv2)"
       "Terminal_Value out2 ! i = millions tv2" "Net_Present_Value out2 ! i = millions npv2"
    by blast
  from 1(1) 2(1) assms(5) have "tv1 = tv2" "npv1 = npv2"
    by simp_all
  with 1 2 show ?thesis
    by simp
qed

theorem year_valuation_independent_witness:
  "valuation_table [2020, 2021] [Some 100, Some 200] 1 0 1 =
     Inr \<lparr> Year = [2020, 2021],
           Free_Cash_Flow = [Some (1 / 10000), Some (1 / 5000)],
           Terminal_Value = [Some (1 / 20000), Some (1 / 10000)],
           Net_Present_Value = [Some (1 / 10000), Some (1 / 5000)] \<rparr>
   \<and> valuation_table [2019, 2020] [Some 300, Some 200] 1 0 1 =
     Inr \<lparr> Year = [2019, 2020],
           Free_Cash_Flow = [Some (3 / 10000), Some (1 / 5000)],
           Terminal_Value = [Some (3 / 20000), Some (1 / 10000)],
           Net_Present_Value = [Some (3 / 10000), Some (1 / 5000)] \<rparr>
   \<and> (1 :: nat) < length [Some (100 :: real), Some 200]
   \<and> (1 :: nat) < length [Some (300 :: real), Some 200]
   \<and> [Some (100 :: real), Some 200] ! 1 = [Some 300, Some 200] ! 1
   \<and> [Some (1 / 20000 :: real), Some (1 / 10000)] ! 1 = [Some (3 / 20000), Some (1 / 10000)] ! 1
   \<and> [Some (1 / 10000 :: real), Some (1 / 5000)] ! 1 = [Some (3 / 10000), Some (1 / 5000)] ! 1"
proof -
  have t1: "valuation_table [2020, 2021] [Some 100, Some 200] 1 0 1 =
     Inr \<lparr> Year = [2020, 2021],
           Free_Cash_Flow = [Some (1 / 10000), Some (1 / 5000)],
           Terminal_Value = [Some (1 / 20000), Some (1 / 10000)],
           Net_Present_Value = [Some (1 / 10000), Some (1 / 5000)] \<rparr>"
    by (simp add: valuation_table_eq dcf_year_example millions_def)
  have t2: "valuation_table [2019, 2020] [Some 300, Some 200] 1 0 1 =
     Inr \<lparr> Year = [2019, 2020],
           Free_Cash_Flow = [Some (3 / 10000), Some (1 / 5000)],
           Terminal_Value = [Some (3 / 20000), Some (1 / 10000)],
           Net_Present_Value = [Some (3 / 10000), Some (1 / 5000)] \<rparr>"
    by (simp add: valuation_table_eq dcf_year_example millions_def)
  have i: "(1 :: nat) < length [Some (100 :: real), Some 200]"
    "(1 :: nat) < length [Some (300 :: real), Some 200]"
    "[Some (100 :: real), Some 200] ! 1 = [Some 300, Some 200] ! 1"
    by simp_all
  from year_valuation_independent [OF t1 t2 i]
  have "[Some (1 / 20000 :: real), Some (1 / 10000)] ! 1 = [Some (3 / 20000), Some (1 / 10000)] ! 1"
    and "[Some (1 / 10000 :: real), Some (1 / 5000)] ! 1 = [Some (3 / 10000), Some (1 / 5000)] ! 1"
    by simp_all
  with t1 t2 i show ?thesis
    by simp
qed

text \<open>
  C8. The worked example: FCFF 100, discount rate 0.10, growth rate 0.02, one projected
  year.
\<close>

theorem worked_example:
  "projected_fcffs (Some 100) 0.02 1 = [Some 102]
   \<and> discounted_fcffs [Some 102] (discount_factors 0.10 1) = Inr [Some (102 / 1.10)]
   \<and> terminal_value [Some 102] 0.10 0.02 = Inr (Some 1300.5)
   \<and> 102 * 1.02 / 0.08 = (1300.5 :: real)
   \<and> terminal_value_pv (Some 1300.5) (discount_factors 0.10 1) = Inr (Some (1300.5 / 1.10))
   \<and> dcf_year (Some 100) 0.10 0.02 1 = Inr (Some (1300.5 / 1.10), Some 1275)
   \<and> \<bar>102 / 1.10 + 1300.5 / 1.10 - 1275.0\<bar> \<le> (0.01 :: real)"
  by (simp add: projected_fcffs_one discount_factors_one fmul_def fdiv_def discounted_fcffs_def
        terminal_value_def terminal_value_pv_def dcf_year_def py_index_def py_sum_def fadd_def)

text \<open>
  C1, at the input where the code departs from it. The comparison in
  \<open>get_financial_value\<close> sets the candidate's sum of absolute values against the plain
  (signed) sum of the values kept so far. Label \<open>A\<close> holds \<open>-10\<close>, label \<open>B\<close> holds \<open>1\<close>:
  \<open>A\<close> has the greater total of absolute values, and \<open>B\<close> is chosen, since \<open>1 > -10\<close>.
  With \<open>-5\<close> and \<open>5\<close> the totals tie and the label listed second is chosen.
\<close>

theorem resolver_compares_with_signed_sum:
  "series_sum (series_abs (col
      \<lparr> columns = [''A'', ''B''],
        rows = [\<lparr> idx = 0, fy = 2020,
                  cell = (\<lambda>c. if c = ''A'' then Some (- 10) else if c = ''B'' then Some 1 else None) \<rparr>] \<rparr>
      ''A'')) = 10
   \<and> series_sum (series_abs (col
      \<lparr> columns = [''A'', ''B''],
        rows = [\<lparr> idx = 0, fy = 2020,
                  cell = (\<lambda>c. if c = ''A'' then Some (- 10) else if c = ''B'' then Some 1 else None) \<rparr>] \<rparr>
      ''B'')) = 1
   \<and> get_financial_value
      \<lparr> columns = [''A'', ''B''],
        rows = [\<lparr> idx = 0, fy = 2020,
                  cell = (\<lambda>c. if c = ''A'' then Some (- 10) else if c = ''B'' then Some 1 else None) \<rparr>] \<rparr>
      [''A'', ''B''] = ([(0, Some 1)], Some ''B'')
   \<and> get_financial_value
      \<lparr> columns = [''A'', ''B''],
        rows = [\<lparr> idx = 0, fy = 2020,
                  cell = (\<lambda>c. if c = ''A'' then Some (- 5) else if c = ''B'' then Some 5 else None) \<rparr>] \<rparr>
      [''A'', ''B''] = ([(0, Some 5)], Some ''B'')"
  by (simp add: get_financial_value_def label_step_def col_def series_abs_def series_sum_def
        fillna0_def zeros_series_def)

text \<open>
  The misalignment of the fallback series does show in a whole run, though not for a
  missing column: a capital expenditure column that sums to zero is not chosen either.
  Two companies report for 2020; the merged frame is sorted by key, so the row of
  \<open>APPLE INC\<close> carries the label 1, the fallback zeros are labelled from 0, and FCFF is
  NaN instead of the operating cash flow of 100.
\<close>

lemma zero_capex_misaligned:
  "dcf_analysis
     \<lparr> raw_columns = key_columns @ balance_sheet_items @ income_statement_items @ cash_flow_items,
       raw_rows =
         [\<lparr> raw_fy = Some 2020, raw_form = Some ''10-K'', raw_name = Some ''APPLE INC'',
            raw_cell = (\<lambda>c. if c = ''NetCashProvidedByUsedInOperatingActivities''
                             then Some 100 else None) \<rparr>,
          \<lparr> raw_fy = Some 2020, raw_form = Some ''10-K'', raw_name = Some ''AAA INC'',
            raw_cell = (\<lambda>c. Some 1) \<rparr>] \<rparr>
     (1 / 10) (1 / 50) 1
   = Inr \<lparr> Year = [2020], Free_Cash_Flow = [None], Terminal_Value = [None],
           Net_Present_Value = [None] \<rparr>"
  by code_simp

text \<open>
  C7 as stated fails on the code: a sheet without the capital expenditure column does
  not degrade, the run is aborted. \<open>process_input_data\<close> selects the column by name and
  raises \<open>KeyError\<close> before any label is resolved.
\<close>

theorem missing_capex_column_aborts:
  "dcf_analysis
     \<lparr> raw_columns = key_columns @ balance_sheet_items @ income_statement_items
                       @ [''NetCashProvidedByUsedInOperatingActivities'',
                          ''DepreciationDepletionAndAmortization''],
       raw_rows =
         [\<lparr> raw_fy = Some 2020, raw_form = Some ''10-K'', raw_name = Some ''APPLE INC'',
            raw_cell = (\<lambda>c. if c = ''NetCashProvidedByUsedInOperatingActivities''
                             then Some 100 else None) \<rparr>] \<rparr>
     (1 / 10) (1 / 50) 1
   = Inl KeyError"
  by (simp add: dcf_analysis_def process_input_data_def select_columns_def key_columns_def
        balance_sheet_items_def income_statement_items_def cash_flow_items_def)

text \<open>
  C7, as the code has it. On a frame in which no candidate label of a concept is a
  column, \<open>get_financial_value\<close> keeps its default: one value per row, each 0, and no
  label chosen. A run of \<open>dcf_analysis\<close> never gets there for a missing column: when the
  sheet has no candidate label for capex (or none for the operating cash flow), loading
  raises \<open>KeyError\<close> and the run is aborted.
\<close>

theorem missing_concept_fallback:
  "(set possible_labels \<inter> set (columns df) = {} \<longrightarrow>
      get_financial_value df possible_labels = (zeros_series (length (rows df)), None)
      \<and> map snd (fst (get_financial_value df possible_labels))
          = replicate (length (rows df)) (Some 0)
      \<and> snd (get_financial_value df possible_labels) = None)
   \<and> (set capex_labels \<inter> set (raw_columns input) = {} \<longrightarrow>
        dcf_analysis input r g N = Inl KeyError)
   \<and> (set cfo_labels \<inter> set (raw_columns input) = {} \<longrightarrow>
        dcf_analysis input r g N = Inl KeyError)"
proof (intro conjI impI)
  assume absent: "set possible_labels \<inter> set (columns df) = {}"
  show "get_financial_value df possible_labels = (zeros_series (length (rows df)), None)"
    using absent by (rule get_financial_value_absent)
  then show "map snd (fst (get_financial_value df possible_labels))
               = replicate (length (rows df)) (Some 0)"
    by (simp add: zeros_series_def comp_def map_replicate_const)
  show "snd (get_financial_value df possible_labels) = None"
    using absent by (simp add: get_financial_value_absent)
next
  assume "set capex_labels \<inter> set (raw_columns input) = {}"
  then have "select_columns input (key_columns @ cash_flow_items) = Inl KeyError"
    by (simp add: select_columns_def cash_flow_items_def capex_labels_def)
  then show "dcf_analysis input r g N = Inl KeyError"
    by (auto simp add: dcf_analysis_def process_input_data_def split: sum.splits
          dest: select_columns_error)
next
  assume "set cfo_labels \<inter> set (raw_columns input) = {}"
  then have "select_columns input (key_columns @ cash_flow_items) = Inl KeyError"
    by (simp add: select_columns_def cash_flow_items_def cfo_labels_def)
  then show "dcf_analysis input r g N = Inl KeyError"
    by (auto simp add: dcf_analysis_def process_input_data_def split: sum.splits
          dest: select_columns_error)
qed

theorem missing_concept_fallback_witness:
  "set capex_labels \<inter> set [''NetCashProvidedByUsedInOperatingActivities''] = {}
   \<and> get_financial_value
       \<lparr> columns = [''NetCashProvidedByUsedInOperatingActivities''],
         rows = [\<lparr> idx = 0, fy = 2020, cell = (\<lambda>c. Some 100) \<rparr>,
                 \<lparr> idx = 1, fy = 2021, cell = (\<lambda>c. Some 200) \<rparr>] \<rparr>
       capex_labels = ([(0, Some 0), (1, Some 0)], None)
   \<and> set capex_labels \<inter> set [''fy'', ''form'', ''name''] = {}
   \<and> dcf_analysis \<lparr> raw_columns = [''fy'', ''form'', ''name''], raw_rows = [] \<rparr> (1 / 10) (1 / 50) 20
       = Inl KeyError"
  using missing_concept_fallback
    [of capex_labels
        "\<lparr> columns = [''NetCashProvidedByUsedInOperatingActivities''],
           rows = [\<lparr> idx = 0, fy = 2020, cell = (\<lambda>c. Some 100) \<rparr>,
                   \<lparr> idx = 1, fy = 2021, cell = (\<lambda>c. Some 200) \<rparr>] \<rparr>"
        "\<lparr> raw_columns = [''fy'', ''form'', ''name''], raw_rows = [] \<rparr>" "1 / 10" "1 / 50" 20]
  by (simp add: capex_labels_def zeros_series_def)

end
